theory Spec2Isabelle
  imports Main "HOL-Library.Sublist" "HOL-Library.AList"
begin

section \<open>gimme-aws-creds: the CLI of \<^verbatim>\<open>gimme_aws_creds/main.py\<close>\<close>

text \<open>
  The class \<^verbatim>\<open>GimmeAWSCreds\<close> is embedded function by function. Python strings are
  \<^typ>\<open>string\<close> (the model is exact on ASCII text), dictionaries with a fixed shape are
  records, the configuration dictionary is a map, and every effect of the program is a
  field of the record \<open>world\<close>: the lines still to be read from standard input, the text
  written to standard output and to standard error, the directory and file of the
  credential store, the two attributes of the object, and the requests sent to the
  federation service. An exception, \<^verbatim>\<open>exit\<close> included, is the left summand of a result.
\<close>

subsection \<open>Exceptions, the world, printing and reading\<close>

datatype exn =
    SystemExit nat
  | KeyError string
  | IndexError
  | ValueError string
  | EOFError
  | ReError string
  | ConfigParserError
  | ExternalError string

text \<open>
  \<open>SystemExit n\<close> is the process ending with exit status \<open>n\<close>. Python's \<^verbatim>\<open>exit()\<close> without
  an argument raises \<^verbatim>\<open>SystemExit(None)\<close>, which is exit status 0; \<^verbatim>\<open>exit(1)\<close> is status 1.
  \<open>ValueError\<close> and \<open>ReError\<close> carry the argument that was refused. \<open>ExternalError\<close> stands
  for whatever an external collaborator (the Okta client, the federation service) raises.
\<close>

type_synonym ini_file = "(string \<times> (string \<times> string) list) list"

text \<open>
  The credential file is kept as the sections its text holds, in order: the header of
  each section and its key/value pairs as written. The directory \<^verbatim>\<open>~/.aws\<close> is missing,
  or exists without the file, or exists with it.
\<close>

datatype aws_dir = Missing | Dir "ini_file option"

record sts_request =
  RoleArn :: string
  PrincipalArn :: string
  SAMLAssertion :: string
  DurationSeconds :: nat

record world =
  stdin :: "string list"
  stdout :: string
  stderr :: string
  creds_store :: aws_dir
  self_idp_arn :: "string option"
  self_role_arn :: "string option"
  sts_requests :: "sts_request list"

type_synonym 'a prog = "world \<Rightarrow> (exn + 'a) \<times> world"

definition and_then :: "'a prog \<Rightarrow> ('a \<Rightarrow> 'b prog) \<Rightarrow> 'b prog" where
  "and_then m f w = (case m w of (Inl e, w') \<Rightarrow> (Inl e, w') | (Inr x, w') \<Rightarrow> f x w')"

definition print_end :: "string \<Rightarrow> string \<Rightarrow> world \<Rightarrow> world" where
  "print_end s e w = w\<lparr>stdout := stdout w @ s @ e\<rparr>"

definition print :: "string \<Rightarrow> world \<Rightarrow> world" where
  "print s w = print_end s ''\<newline>'' w"

definition print_stderr :: "string \<Rightarrow> world \<Rightarrow> world" where
  "print_stderr s w = w\<lparr>stderr := stderr w @ s @ ''\<newline>''\<rparr>"

definition exit :: "nat \<Rightarrow> 'a prog" where
  "exit status w = (Inl (SystemExit status), w)"

text \<open>
  \<^verbatim>\<open>input(prompt)\<close> writes the prompt to standard output and returns the next line of
  standard input without its line end; at the end of the input it raises \<^verbatim>\<open>EOFError\<close>.
\<close>

definition input :: "string \<Rightarrow> string prog" where
  "input prompt w =
     (case stdin w of
        [] \<Rightarrow> (Inl EOFError, print_end prompt [] w)
      | l # ls \<Rightarrow> (Inr l, (print_end prompt [] w)\<lparr>stdin := ls\<rparr>))"

subsection \<open>Python's \<^verbatim>\<open>int\<close>, \<^verbatim>\<open>str\<close>, \<^verbatim>\<open>lower\<close>, indexing and truth of a configuration value\<close>

definition is_space :: "char \<Rightarrow> bool" where
  "is_space c = (c \<in> set [CHR 0x09, CHR 0x0A, CHR 0x0B, CHR 0x0C, CHR 0x0D, CHR 0x20])"

definition strip :: "string \<Rightarrow> string" where
  "strip s = rev (dropWhile is_space (rev (dropWhile is_space s)))"

definition digit_of :: "char \<Rightarrow> nat option" where
  "digit_of c = map_of (zip ''0123456789'' [0, 1, 2, 3, 4, 5, 6, 7, 8, 9]) c"

text \<open>
  The digits after the first one: each is a digit, or an underscore followed by a digit.
\<close>

fun more_digits :: "nat \<Rightarrow> string \<Rightarrow> nat option" where
  "more_digits acc [] = Some acc"
| "more_digits acc [c] =
     (case digit_of c of None \<Rightarrow> None | Some v \<Rightarrow> Some (10 * acc + v))"
| "more_digits acc (c # d # ds) =
     (if c = CHR ''_''
      then (case digit_of d of None \<Rightarrow> None | Some v \<Rightarrow> more_digits (10 * acc + v) ds)
      else (case digit_of c of None \<Rightarrow> None | Some v \<Rightarrow> more_digits (10 * acc + v) (d # ds)))"

definition unsigned_int :: "string \<Rightarrow> nat option" where
  "unsigned_int s =
     (case s of
        [] \<Rightarrow> None
      | c # cs \<Rightarrow> (case digit_of c of None \<Rightarrow> None | Some v \<Rightarrow> more_digits v cs))"

text \<open>
  \<^verbatim>\<open>int(s)\<close> on a string, base ten: surrounding white space is dropped, one sign may
  lead, and the digits may be grouped by single underscores. \<open>None\<close> is \<^verbatim>\<open>ValueError\<close>.
\<close>

definition py_int :: "string \<Rightarrow> int option" where
  "py_int s =
     (case strip s of
        [] \<Rightarrow> None
      | c # cs \<Rightarrow>
          if c = CHR ''-'' then map_option (\<lambda>n. - int n) (unsigned_int cs)
          else if c = CHR ''+'' then map_option int (unsigned_int cs)
          else map_option int (unsigned_int (c # cs)))"

fun str_nat :: "nat \<Rightarrow> string" where
  "str_nat n =
     (if n < 10 then [''0123456789'' ! n]
      else str_nat (n div 10) @ [''0123456789'' ! (n mod 10)])"

definition lower_char :: "char \<Rightarrow> char" where
  "lower_char c =
     (case map_of (zip ''ABCDEFGHIJKLMNOPQRSTUVWXYZ'' ''abcdefghijklmnopqrstuvwxyz'') c of
        None \<Rightarrow> c
      | Some d \<Rightarrow> d)"

definition lower :: "string \<Rightarrow> string" where
  "lower s = map lower_char s"

text \<open>
  \<^verbatim>\<open>xs[i]\<close>: positions are counted from 0, or backwards from \<open>-1\<close> at the last element;
  any other integer raises \<^verbatim>\<open>IndexError\<close>.
\<close>

definition py_index :: "'a list \<Rightarrow> int \<Rightarrow> exn + 'a" where
  "py_index xs i =
     (if 0 \<le> i \<and> i < int (length xs) then Inr (xs ! nat i)
      else if i < 0 \<and> - int (length xs) \<le> i then Inr (xs ! nat (int (length xs) + i))
      else Inl IndexError)"

text \<open>
  The configuration dictionary maps option names to strings. \<^verbatim>\<open>conf_dict.get(k)\<close> is the
  lookup; \<^verbatim>\<open>not conf_dict.get(k)\<close> holds for a missing key and for the empty string;
  \<^verbatim>\<open>conf_dict[k]\<close> raises \<^verbatim>\<open>KeyError\<close> for a missing key.
\<close>

definition falsy :: "string option \<Rightarrow> bool" where
  "falsy v = (v = None \<or> v = Some [])"

definition item :: "(string \<rightharpoonup> string) \<Rightarrow> string \<Rightarrow> exn + string" where
  "item d k = (case d k of None \<Rightarrow> Inl (KeyError k) | Some v \<Rightarrow> Inr v)"

subsection \<open>\<^verbatim>\<open>re.sub(':saml-provider.*', repl, string)\<close>\<close>

text \<open>
  The pattern matches the text \<^verbatim>\<open>:saml-provider\<close> and everything after it up to the end
  of the line (the dot does not match a line feed). \<^verbatim>\<open>re.sub\<close> scans from the left,
  replaces each match and goes on behind it. A replacement without a backslash is
  inserted as it is. A replacement with a backslash is a template: the regular
  expression library compiles it, before any matching, into a function of the matched
  text, or rejects it. That compiler is outside this repository and differs between
  Python versions, so it is a parameter of the model.
\<close>

type_synonym template_compiler = "string \<Rightarrow> exn + (string \<Rightarrow> string)"

definition marker :: string where
  "marker = '':saml-provider''"

definition not_newline :: "char \<Rightarrow> bool" where
  "not_newline c = (c \<noteq> CHR 0x0A)"

function sub_matches :: "(string \<Rightarrow> string) \<Rightarrow> string \<Rightarrow> string" where
  "sub_matches f [] = []"
| "sub_matches f (c # cs) =
     (if take (length marker) (c # cs) = marker
      then f (takeWhile not_newline (c # cs)) @ sub_matches f (dropWhile not_newline cs)
      else c # sub_matches f cs)"
  by pat_completeness auto
termination
  by (relation "measure (\<lambda>(f, s). length s)")
     (auto simp: less_Suc_eq_le length_dropWhile_le)

definition compile_repl :: "template_compiler \<Rightarrow> string \<Rightarrow> exn + (string \<Rightarrow> string)" where
  "compile_repl tc repl = (if CHR 0x5C \<in> set repl then tc repl else Inr (\<lambda>m. repl))"

definition re_sub :: "template_compiler \<Rightarrow> string \<Rightarrow> string \<Rightarrow> exn + string" where
  "re_sub tc repl s =
     (case compile_repl tc repl of Inl e \<Rightarrow> Inl e | Inr f \<Rightarrow> Inr (sub_matches f s))"

text \<open>
  A template compiler that accepts no template. The theorems below hold for every
  compiler; this one stands in where a concrete run is evaluated on replacements
  without a backslash, which never reach the compiler.
\<close>

definition reject_templates :: template_compiler where
  "reject_templates repl = Inl (ReError repl)"

subsection \<open>\<^verbatim>\<open>_get_aws_account_info\<close> and \<^verbatim>\<open>_call_gimme_creds_server\<close>: the catalog\<close>

text \<open>
  An application record of the Okta API, with the fields the program reads:
  \<^verbatim>\<open>name\<close>, \<^verbatim>\<open>id\<close>, \<^verbatim>\<open>label\<close>, \<^verbatim>\<open>settings.app.identityProviderArn\<close>,
  \<^verbatim>\<open>_embedded.user.profile.samlRoles\<close>, and the \<^verbatim>\<open>href\<close>s of \<^verbatim>\<open>_links.appLinks\<close> and of
  \<^verbatim>\<open>_links.logo\<close>.
\<close>

record okta_app =
  okta_name :: string
  okta_id :: string
  okta_label :: string
  okta_identityProviderArn :: string
  samlRoles :: "string list"
  appLinks :: "string list"
  logo :: "string list"

text \<open>The entries the program builds: a role, and an application with its roles.\<close>

record role =
  role_name :: string
  role_arn :: string

record aws_app =
  app_id :: string
  app_name :: string
  identityProviderArn :: string
  roles :: "role list"
  appLink :: string
  appLogo :: string

datatype okta_error = OktaError (error_code: string) (error_summary: string)

text \<open>
  The answers of the Okta API to this run: the answer to the user query (the user's id),
  the answer to the first application query, and the answers to the queries for the
  following pages, in order. An answer links to a next page exactly when another answer
  follows it.
\<close>

record okta_api =
  user_result :: "okta_error + string"
  first_page :: "okta_error + okta_app list"
  next_pages :: "(okta_error + okta_app list) list"

fun build_roles :: "template_compiler \<Rightarrow> string \<Rightarrow> string list \<Rightarrow> exn + role list" where
  "build_roles tc idp [] = Inr []"
| "build_roles tc idp (r # rs) =
     (case re_sub tc ('':role/'' @ r) idp of
        Inl e \<Rightarrow> Inl e
      | Inr a \<Rightarrow>
          (case build_roles tc idp rs of
             Inl e \<Rightarrow> Inl e
           | Inr infos \<Rightarrow> Inr (\<lparr>role_name = r, role_arn = a\<rparr> # infos)))"

definition new_app_entry :: "template_compiler \<Rightarrow> okta_app \<Rightarrow> exn + aws_app" where
  "new_app_entry tc app =
     (case build_roles tc (okta_identityProviderArn app) (samlRoles app) of
        Inl e \<Rightarrow> Inl e
      | Inr rs \<Rightarrow>
          (case appLinks app of
             [] \<Rightarrow> Inl IndexError
           | link # _ \<Rightarrow>
               (case logo app of
                  [] \<Rightarrow> Inl IndexError
                | lg # _ \<Rightarrow>
                    Inr \<lparr>app_id = okta_id app, app_name = okta_label app,
                         identityProviderArn = okta_identityProviderArn app,
                         roles = rs, appLink = link, appLogo = lg\<rparr>)))"

fun build_app_list :: "template_compiler \<Rightarrow> okta_app list \<Rightarrow> exn + aws_app list" where
  "build_app_list tc [] = Inr []"
| "build_app_list tc (app # apps) =
     (if okta_name app = ''amazon_aws''
      then (case new_app_entry tc app of
              Inl e \<Rightarrow> Inl e
            | Inr entry \<Rightarrow>
                (case build_app_list tc apps of
                   Inl e \<Rightarrow> Inl e
                 | Inr entries \<Rightarrow> Inr (entry # entries)))
      else build_app_list tc apps)"

text \<open>The loop over the following pages: a dot is printed, then the page is fetched.\<close>

fun other_pages ::
  "(okta_error + okta_app list) list \<Rightarrow> okta_app list \<Rightarrow> world \<Rightarrow>
     (okta_error + okta_app list) \<times> world" where
  "other_pages [] final_result w = (Inr final_result, w)"
| "other_pages (p # ps) final_result w =
     (case p of
        Inl e \<Rightarrow> (Inl e, print_end ''.'' [] w)
      | Inr page \<Rightarrow> other_pages ps (final_result @ page) (print_end ''.'' [] w))"

definition all_pages :: "okta_api \<Rightarrow> world \<Rightarrow> (okta_error + okta_app list) \<times> world" where
  "all_pages api w =
     (case first_page api of
        Inl e \<Rightarrow> (Inl e, w)
      | Inr page \<Rightarrow>
          (case other_pages (next_pages api) page w of
             (Inl e, w') \<Rightarrow> (Inl e, w')
           | (Inr final_result, w') \<Rightarrow> (Inr final_result, print ''done\<newline>'' w')))"

definition get_aws_account_info ::
  "template_compiler \<Rightarrow> okta_api \<Rightarrow> string \<Rightarrow> aws_app list prog" where
  "get_aws_account_info tc api username w =
     (case user_result api of
        Inl e \<Rightarrow>
          if error_code e = ''E0000007''
          then exit 1 (print (''Error: '' @ username @ '' was not found!'') w)
          else exit 1 (print (''Error: '' @ error_summary e) w)
      | Inr user_id \<Rightarrow>
          (case all_pages api w of
             (Inl e, w') \<Rightarrow>
               if error_code e = ''E0000007''
               then exit 1 (print (''Error: No applications found for '' @ username) w')
               else exit 1 (print (''Error: '' @ error_summary e) w')
           | (Inr final_result, w') \<Rightarrow>
               (case build_app_list tc final_result of
                  Inl e \<Rightarrow> (Inl e, w')
                | Inr app_list \<Rightarrow>
                    if app_list = [] then exit 0 (print ''No AWS accounts found.'' w')
                    else (Inr app_list, w'))))"

text \<open>
  The server mode: \<open>response\<close> is the decoded answer of the gimme-creds server, or what
  the request raised.
\<close>

definition call_gimme_creds_server :: "exn + aws_app list \<Rightarrow> aws_app list prog" where
  "call_gimme_creds_server response w =
     (case response of
        Inl e \<Rightarrow> (Inl e, w)
      | Inr app_list \<Rightarrow>
          if app_list = [] then exit 0 (print ''No AWS accounts found.'' w)
          else (Inr app_list, w))"

subsection \<open>Choosing an application and a role\<close>

fun get_app_by_name :: "aws_app list \<Rightarrow> string \<Rightarrow> aws_app option" where
  "get_app_by_name [] appname = None"
| "get_app_by_name (app # aws_info) appname =
     (if app_name app = appname then Some app else get_app_by_name aws_info appname)"

fun find_role :: "role list \<Rightarrow> string \<Rightarrow> role option" where
  "find_role [] rolename = None"
| "find_role (r # rs) rolename =
     (if role_name r = rolename then Some r else find_role rs rolename)"

definition get_role_by_name :: "aws_app \<Rightarrow> string \<Rightarrow> role option" where
  "get_role_by_name app_info rolename = find_role (roles app_info) rolename"

text \<open>
  The loop of \<^verbatim>\<open>_get_user_int_selection\<close>: at most \<open>max_retries\<close> lines are read; the
  first one that \<^verbatim>\<open>int\<close> accepts ends the loop; every other one prints a message.
\<close>

fun read_selection :: "nat \<Rightarrow> int option prog" where
  "read_selection 0 w = (Inr None, w)"
| "read_selection (Suc k) w =
     (case input ''Selection: '' w of
        (Inl e, w') \<Rightarrow> (Inl e, w')
      | (Inr line, w') \<Rightarrow>
          (case py_int line of
             Some n \<Rightarrow> (Inr (Some n), w')
           | None \<Rightarrow>
               read_selection k (print ''Invalid selection, must be an integer value.'' w')))"

definition get_user_int_selection :: "int \<Rightarrow> int \<Rightarrow> nat \<Rightarrow> int option prog" where
  "get_user_int_selection min_int max_int max_retries w =
     (case read_selection max_retries w of
        (Inl e, w') \<Rightarrow> (Inl e, w')
      | (Inr None, w') \<Rightarrow> (Inr None, w')
      | (Inr (Some selection), w') \<Rightarrow>
          if selection < min_int \<or> selection > max_int then (Inr None, w')
          else (Inr (Some selection), w'))"

text \<open>The lines \<^verbatim>\<open>'[{}] {}'.format(i, entry["name"])\<close>, numbered from \<open>i\<close>.\<close>

fun numbered :: "nat \<Rightarrow> string list \<Rightarrow> string list" where
  "numbered i [] = []"
| "numbered i (n # ns) = (''['' @ str_nat i @ ''] '' @ n) # numbered (Suc i) ns"

fun print_all :: "string list \<Rightarrow> world \<Rightarrow> world" where
  "print_all [] w = w"
| "print_all (l # ls) w = print_all ls (print l w)"

text \<open>
  \<^verbatim>\<open>_choose_app\<close> and \<^verbatim>\<open>_choose_role\<close>. An application and a role are dictionaries with
  keys, so the tests \<^verbatim>\<open>not app_info\<close> and \<^verbatim>\<open>not role\<close> of the source are false for them.
\<close>

definition choose_app :: "aws_app list \<Rightarrow> aws_app option prog" where
  "choose_app aws_info w =
     (if aws_info = [] then (Inr None, w)
      else
        let app_strs = numbered 0 (map app_name aws_info) in
        if app_strs = [] then (Inr None, w)
        else
          (case get_user_int_selection 0 (int (length aws_info) - 1) 5
                  (print_all app_strs (print ''Pick an app:'' w)) of
             (Inl e, w') \<Rightarrow> (Inl e, w')
           | (Inr None, w') \<Rightarrow> exit 1 (print ''You made an invalid selection'' w')
           | (Inr (Some selection), w') \<Rightarrow>
               (case py_index aws_info selection of
                  Inl e \<Rightarrow> (Inl e, w')
                | Inr app \<Rightarrow> (Inr (Some app), w'))))"

definition choose_role :: "aws_app \<Rightarrow> role option prog" where
  "choose_role app_info w =
     (let role_strs = numbered 0 (map role_name (roles app_info)) in
      if role_strs = [] then (Inr None, w)
      else
        (case get_user_int_selection 0 (int (length (roles app_info)) - 1) 5
                (print_all role_strs (print ''Pick a role:'' w)) of
           (Inl e, w') \<Rightarrow> (Inl e, w')
         | (Inr None, w') \<Rightarrow> exit 1 (print ''You made an invalid selection'' w')
         | (Inr (Some selection), w') \<Rightarrow>
             (case py_index (roles app_info) selection of
                Inl e \<Rightarrow> (Inl e, w')
              | Inr r \<Rightarrow> (Inr (Some r), w'))))"

subsection \<open>\<^verbatim>\<open>RawConfigParser\<close> and \<^verbatim>\<open>_write_aws_creds\<close>: the credential store\<close>

text \<open>
  A \<^verbatim>\<open>RawConfigParser\<close> holds the options of the section \<^verbatim>\<open>DEFAULT\<close> and an ordered
  dictionary of the other sections, each an ordered dictionary of options. Assigning to
  a key of an ordered dictionary replaces the value in place, or appends the key.
\<close>

record config =
  defaults :: "(string \<times> string) list"
  sections :: ini_file

definition empty_config :: config where
  "empty_config = \<lparr>defaults = [], sections = []\<rparr>"

definition on_value :: "exn + 'a \<Rightarrow> ('a \<Rightarrow> exn + 'b) \<Rightarrow> exn + 'b" where
  "on_value r f = (case r of Inl e \<Rightarrow> Inl e | Inr x \<Rightarrow> f x)"

definition lower_keys :: "(string \<times> string) list \<Rightarrow> (string \<times> string) list" where
  "lower_keys kvs = map (\<lambda>kv. (lower (fst kv), snd kv)) kvs"

text \<open>
  \<^verbatim>\<open>config.read\<close> of an existing file, in the strict mode that is the default: option
  names are put in lower case; sections headed \<^verbatim>\<open>DEFAULT\<close> are merged into the defaults;
  a section that occurs twice, an option that occurs twice in a section, and a header
  without a name are errors of the parser.
\<close>

definition config_read :: "ini_file \<Rightarrow> exn + config" where
  "config_read f =
     (let secs = map (\<lambda>s. (fst s, lower_keys (snd s))) f;
          ds = concat (map snd (filter (\<lambda>s. fst s = ''DEFAULT'') secs));
          ss = filter (\<lambda>s. fst s \<noteq> ''DEFAULT'') secs
      in if distinct (map fst ss) \<and> distinct (map fst ds)
            \<and> list_all (\<lambda>s. fst s \<noteq> [] \<and> distinct (map fst (snd s))) ss
         then Inr \<lparr>defaults = ds, sections = ss\<rparr>
         else Inl ConfigParserError)"

definition config_write :: "config \<Rightarrow> ini_file" where
  "config_write cfg =
     (if defaults cfg = [] then [] else [(''DEFAULT'', defaults cfg)]) @ sections cfg"



definition has_section :: "config \<Rightarrow> string \<Rightarrow> bool" where
  "has_section cfg section = (section \<in> set (map fst (sections cfg)))"

definition add_section :: "string \<Rightarrow> config \<Rightarrow> exn + config" where
  "add_section section cfg =
     (if section = ''DEFAULT'' then Inl (ValueError section)
      else if has_section cfg section then Inl ConfigParserError
      else Inr (cfg\<lparr>sections := sections cfg @ [(section, [])]\<rparr>))"

definition config_set :: "string \<Rightarrow> string \<Rightarrow> string \<Rightarrow> config \<Rightarrow> exn + config" where
  "config_set section option val cfg =
     (if section = [] \<or> section = ''DEFAULT''
      then Inr (cfg\<lparr>defaults := AList.update (lower option) val (defaults cfg)\<rparr>)
      else (case map_of (sections cfg) section of
              None \<Rightarrow> Inl ConfigParserError
            | Some sectdict \<Rightarrow>
                Inr (cfg\<lparr>sections :=
                  AList.update section (AList.update (lower option) val sectdict)
                    (sections cfg)\<rparr>)))"

text \<open>
  \<^verbatim>\<open>_write_aws_creds\<close>: the directory is created when it is missing, the file is read
  when it exists, the section of the profile is added when the parser has none, the
  three options are set, and the whole configuration is written back.
\<close>

definition existing_file :: "aws_dir \<Rightarrow> ini_file option" where
  "existing_file d = (case d of Missing \<Rightarrow> None | Dir f \<Rightarrow> f)"

definition updated_config :: "string \<Rightarrow> string \<Rightarrow> string \<Rightarrow> string \<Rightarrow> config \<Rightarrow> exn + config" where
  "updated_config profile access_key secret_key token cfg =
     on_value (if has_section cfg profile then Inr cfg else add_section profile cfg)
       (\<lambda>c1. on_value (config_set profile ''aws_access_key_id'' access_key c1)
         (\<lambda>c2. on_value (config_set profile ''aws_secret_access_key'' secret_key c2)
           (\<lambda>c3. config_set profile ''aws_session_token'' token c3)))"

definition write_aws_creds :: "string \<Rightarrow> string \<Rightarrow> string \<Rightarrow> string \<Rightarrow> unit prog" where
  "write_aws_creds profile access_key secret_key token w =
     (let file = existing_file (creds_store w) in
      case on_value (case file of None \<Rightarrow> Inr empty_config | Some f \<Rightarrow> config_read f)
             (updated_config profile access_key secret_key token) of
        Inl e \<Rightarrow> (Inl e, w\<lparr>creds_store := Dir file\<rparr>)
      | Inr cfg \<Rightarrow> (Inr (), w\<lparr>creds_store := Dir (Some (config_write cfg))\<rparr>))"

subsection \<open>\<^verbatim>\<open>_get_sts_creds\<close> and \<^verbatim>\<open>run\<close>\<close>

record credentials =
  AccessKeyId :: string
  SecretAccessKey :: string
  SessionToken :: string

text \<open>
  The federation service is a function from the request to its answer. Every request
  that reaches it is appended to \<open>sts_requests\<close>. The two attributes are \<^verbatim>\<open>None\<close> until
  \<^verbatim>\<open>run\<close> sets them, and the client refuses \<^verbatim>\<open>None\<close> for a parameter before it sends
  anything.
\<close>

definition get_sts_creds ::
  "(sts_request \<Rightarrow> exn + credentials) \<Rightarrow> string \<Rightarrow> nat \<Rightarrow> credentials prog" where
  "get_sts_creds service assertion duration w =
     (case self_role_arn w of
        None \<Rightarrow> (Inl (ExternalError ''ParamValidationError''), w)
      | Some r \<Rightarrow>
          (case self_idp_arn w of
             None \<Rightarrow> (Inl (ExternalError ''ParamValidationError''), w)
           | Some p \<Rightarrow>
               (let request = \<lparr>RoleArn = r, PrincipalArn = p, SAMLAssertion = assertion,
                                DurationSeconds = duration\<rparr>
                in (service request, w\<lparr>sts_requests := sts_requests w @ [request]\<rparr>))))"

text \<open>
  What a run receives from outside \<^verbatim>\<open>main.py\<close>: the command line flag \<^verbatim>\<open>--configure\<close>,
  the configuration dictionary, the API key of the environment, the results of the
  calls to the Okta client (\<^verbatim>\<open>auth_session\<close> gives the user name, \<^verbatim>\<open>auth_oauth\<close>, the
  API answers, the answer of the gimme-creds server, \<^verbatim>\<open>get_saml_response\<close> by
  application link), the federation service, the template compiler of the regular
  expression library, and the path \<^verbatim>\<open>AWS_CONFIG\<close>. The calls that hand nothing back to
  \<^verbatim>\<open>main.py\<close> (the construction of the Okta client, \<^verbatim>\<open>set_username\<close>,
  \<^verbatim>\<open>use_oauth_access_token\<close>, \<^verbatim>\<open>update_config_file\<close>, \<^verbatim>\<open>clean_up\<close>) act outside the world
  of this model and are left out.
\<close>

record env =
  configure :: bool
  conf_dict :: "string \<rightharpoonup> string"
  api_key :: "string option"
  auth_session :: "exn + string"
  auth_oauth :: "exn + unit"
  okta :: okta_api
  server_response :: "exn + aws_app list"
  saml_response :: "string \<Rightarrow> exn + string"
  assume_role_with_saml :: "sts_request \<Rightarrow> exn + credentials"
  compile_template :: template_compiler
  AWS_CONFIG :: string

text \<open>Lines 288 to 334 of \<^verbatim>\<open>run\<close>: the configuration checks and the catalog.\<close>

definition run_catalog :: "env \<Rightarrow> aws_app list prog" where
  "run_catalog env w =
     (if falsy (conf_dict env ''okta_org_url'')
      then exit 1
        (print ''No Okta organization URL in configuration.  Try running --config again.'' w)
      else if falsy (conf_dict env ''gimme_creds_server'')
      then exit 1
        (print ''No Gimme-Creds server URL in configuration.  Try running --config again.'' w)
      else if conf_dict env ''gimme_creds_server'' = Some ''internal''
      then (case api_key env of
              None \<Rightarrow> exit 1 (print ''OKTA_API_KEY environment variable not found!'' w)
            | Some key \<Rightarrow>
                (case auth_session env of
                   Inl e \<Rightarrow> (Inl e, w)
                 | Inr username \<Rightarrow>
                     get_aws_account_info (compile_template env) (okta env) username
                       (print_end ''Authentication Success! Getting AWS Accounts'' [] w)))
      else
        (let w1 = (if falsy (conf_dict env ''client_id'')
                   then print
                     ''No OAuth Client ID in configuration.  Try running --config again.'' w
                   else w);
             w2 = (if falsy (conf_dict env ''okta_auth_server'')
                   then print
                     ''No OAuth Authorization server in configuration.  Try running --config again.''
                     w1
                   else w1)
         in case item (conf_dict env) ''client_id'' of
              Inl e \<Rightarrow> (Inl e, w2)
            | Inr client_id \<Rightarrow>
                (case item (conf_dict env) ''okta_auth_server'' of
                   Inl e \<Rightarrow> (Inl e, w2)
                 | Inr server \<Rightarrow>
                     (case auth_oauth env of
                        Inl e \<Rightarrow> (Inl e, w2)
                      | Inr u \<Rightarrow>
                          call_gimme_creds_server (server_response env)
                            (print ''Authentication Success! Calling Gimme-Creds Server...''
                               w2)))))"

text \<open>
  Lines 336 to 346: the application. A name is pinned when \<^verbatim>\<open>conf_dict.get\<close> gives a
  string that is not empty.
\<close>

definition run_select_app :: "env \<Rightarrow> aws_app list \<Rightarrow> aws_app prog" where
  "run_select_app env aws_results =
     and_then
       (if falsy (conf_dict env ''aws_appname'') then choose_app aws_results
        else (\<lambda>w. case item (conf_dict env) ''aws_appname'' of
                     Inl e \<Rightarrow> (Inl e, w)
                   | Inr appname \<Rightarrow> (Inr (get_app_by_name aws_results appname), w)))
       (\<lambda>aws_app w.
          case aws_app of
            Some app \<Rightarrow> (Inr app, w)
          | None \<Rightarrow>
              (case item (conf_dict env) ''aws_appname'' of
                 Inl e \<Rightarrow> (Inl e, w)
               | Inr appname \<Rightarrow>
                   exit 1 (print (''AWS app '' @ appname @ '' not found for this user.'') w)))"

text \<open>Lines 348 to 356: the role.\<close>

definition run_select_role :: "env \<Rightarrow> aws_app \<Rightarrow> role prog" where
  "run_select_role env aws_app =
     and_then
       (if falsy (conf_dict env ''aws_rolename'') then choose_role aws_app
        else (\<lambda>w. case item (conf_dict env) ''aws_rolename'' of
                     Inl e \<Rightarrow> (Inl e, w)
                   | Inr rolename \<Rightarrow> (Inr (get_role_by_name aws_app rolename), w)))
       (\<lambda>aws_role w.
          case aws_role of
            Some r \<Rightarrow> (Inr r, w)
          | None \<Rightarrow> exit 1 (print ''No roles available to this user.'' w))"

text \<open>Lines 358 to 365: the two attributes, the assertion and the exchange.\<close>

definition run_exchange :: "env \<Rightarrow> aws_app \<Rightarrow> role \<Rightarrow> credentials prog" where
  "run_exchange env aws_app aws_role w =
     (let w1 = w\<lparr>self_idp_arn := Some (identityProviderArn aws_app),
                 self_role_arn := Some (role_arn aws_role)\<rparr>
      in case saml_response env (appLink aws_app) of
           Inl e \<Rightarrow> (Inl e, w1)
         | Inr assertion \<Rightarrow> get_sts_creds (assume_role_with_saml env) assertion 3600 w1)"

text \<open>Lines 367 to 391: the delivery of the credentials.\<close>

definition run_deliver :: "env \<Rightarrow> credentials \<Rightarrow> unit prog" where
  "run_deliver env aws_creds w =
     (case item (conf_dict env) ''write_aws_creds'' of
        Inl e \<Rightarrow> (Inl e, w)
      | Inr flag \<Rightarrow>
          if flag = ''True''
          then
            (let w1 = print (''writing to  '' @ AWS_CONFIG env) w
             in case item (conf_dict env) ''cred_profile'' of
                  Inl e \<Rightarrow> (Inl e, w1)
                | Inr cred_profile \<Rightarrow>
                    (case (if lower cred_profile = ''default'' then Inr ''default''
                           else if lower cred_profile = ''role''
                           then item (conf_dict env) ''aws_rolename''
                           else Inr cred_profile) of
                       Inl e \<Rightarrow> (Inl e, w1)
                     | Inr profile_name \<Rightarrow>
                         write_aws_creds profile_name (AccessKeyId aws_creds)
                           (SecretAccessKey aws_creds) (SessionToken aws_creds) w1))
          else
            (Inr (),
             print_stderr (''export AWS_SESSION_TOKEN='' @ SessionToken aws_creds)
               (print_stderr (''export AWS_SECRET_ACCESS_KEY='' @ SecretAccessKey aws_creds)
                  (print_stderr (''export AWS_ACCESS_KEY_ID='' @ AccessKeyId aws_creds) w))))"

text \<open>
  \<^verbatim>\<open>run\<close>. With \<^verbatim>\<open>--configure\<close> the program rewrites its configuration file (code
  outside \<^verbatim>\<open>main.py\<close>, not modelled) and ends with \<^verbatim>\<open>exit()\<close>.
\<close>

definition run :: "env \<Rightarrow> unit prog" where
  "run env =
     (if configure env then exit 0
      else
        and_then (run_catalog env) (\<lambda>aws_results.
        and_then (run_select_app env aws_results) (\<lambda>aws_app.
        and_then (run_select_role env aws_app) (\<lambda>aws_role.
        and_then (run_exchange env aws_app aws_role) (\<lambda>aws_creds.
        run_deliver env aws_creds)))))"

subsection \<open>Sample data\<close>

text \<open>
  A world in which nothing has happened yet, one application record of the Okta API
  with the entry the catalog makes of it, and an environment in the internal mode with
  no pinned names, in which the assertion source and the federation service accept
  every request.
\<close>

definition fresh :: world where
  "fresh = \<lparr>stdin = [], stdout = [], stderr = [], creds_store = Missing,
            self_idp_arn = None, self_role_arn = None, sts_requests = []\<rparr>"

definition okta_prod :: okta_app where
  "okta_prod = \<lparr>okta_name = ''amazon_aws'', okta_id = ''0oa1'', okta_label = ''Prod'',
     okta_identityProviderArn = ''arn:aws:iam::111:saml-provider/Okta'',
     samlRoles = [''Admin''], appLinks = [''https://example.okta.com/app''],
     logo = [''https://example.okta.com/logo'']\<rparr>"

definition prod :: aws_app where
  "prod = \<lparr>app_id = ''0oa1'', app_name = ''Prod'',
     identityProviderArn = ''arn:aws:iam::111:saml-provider/Okta'',
     roles = [\<lparr>role_name = ''Admin'', role_arn = ''arn:aws:iam::111:role/Admin''\<rparr>],
     appLink = ''https://example.okta.com/app'',
     appLogo = ''https://example.okta.com/logo''\<rparr>"

definition sample_creds :: credentials where
  "sample_creds =
     \<lparr>AccessKeyId = ''AKID'', SecretAccessKey = ''SECRET'', SessionToken = ''TOKEN''\<rparr>"

definition accept_request :: "sts_request \<Rightarrow> exn + credentials" where
  "accept_request request = Inr sample_creds"

definition sample_assertion :: "string \<Rightarrow> exn + string" where
  "sample_assertion link = Inr ''PHNhbWw+''"

definition sample_env :: env where
  "sample_env = \<lparr>configure = False,
     conf_dict = map_of [(''okta_org_url'', ''https://example.okta.com''),
                         (''gimme_creds_server'', ''internal''),
                         (''write_aws_creds'', ''False''),
                         (''cred_profile'', ''role'')],
     api_key = Some ''key'',
     auth_session = Inr ''alice'',
     auth_oauth = Inr (),
     okta = \<lparr>user_result = Inr ''00u1'', first_page = Inr [okta_prod], next_pages = []\<rparr>,
     server_response = Inr [prod],
     saml_response = sample_assertion,
     assume_role_with_saml = accept_request,
     compile_template = reject_templates,
     AWS_CONFIG = ''/home/alice/.aws/credentials''\<rparr>"

section \<open>Properties\<close>

subsection \<open>Unfolding the model on concrete data\<close>

lemmas io_defs =
  and_then_def exit_def print_def print_end_def print_stderr_def input_def falsy_def item_def

lemmas python_defs =
  py_int_def strip_def is_space_def unsigned_int_def digit_of_def py_index_def lower_def
  lower_char_def

lemmas catalog_defs =
  get_aws_account_info_def all_pages_def new_app_entry_def re_sub_def compile_repl_def
  marker_def not_newline_def call_gimme_creds_server_def reject_templates_def

lemma read_selection_numeral:
  "read_selection (numeral k) w =
     (case input ''Selection: '' w of
        (Inl e, w') \<Rightarrow> (Inl e, w')
      | (Inr line, w') \<Rightarrow>
          (case py_int line of
             Some n \<Rightarrow> (Inr (Some n), w')
           | None \<Rightarrow>
               read_selection (pred_numeral k)
                 (print ''Invalid selection, must be an integer value.'' w')))"
  by (simp add: numeral_eq_Suc)

lemmas choice_defs =
  choose_app_def choose_role_def get_user_int_selection_def get_role_by_name_def
  read_selection_numeral

lemmas store_defs =
  write_aws_creds_def existing_file_def updated_config_def on_value_def config_read_def
  config_write_def has_section_def add_section_def config_set_def empty_config_def
  lower_keys_def

lemmas run_defs =
  run_def run_catalog_def run_select_app_def run_select_role_def run_exchange_def
  run_deliver_def get_sts_creds_def

lemmas sample_defs =
  fresh_def okta_prod_def prod_def sample_creds_def accept_request_def sample_assertion_def
  sample_env_def

subsection \<open>Lookup by name\<close>

lemma get_app_by_name_first:
  "app_name a = n \<Longrightarrow> n \<notin> app_name ` set pre \<Longrightarrow>
     get_app_by_name (pre @ a # post) n = Some a"
  by (induction pre) auto

lemma get_app_by_name_none:
  "n \<notin> app_name ` set apps \<Longrightarrow> get_app_by_name apps n = None"
  by (induction apps) auto

lemma find_role_first:
  "role_name r = n \<Longrightarrow> n \<notin> role_name ` set pre \<Longrightarrow>
     find_role (pre @ r # post) n = Some r"
  by (induction pre) auto

lemma find_role_none:
  "n \<notin> role_name ` set rs \<Longrightarrow> find_role rs n = None"
  by (induction rs) auto

text \<open>
  Claim C10. In a list that may hold several entries of the same name, the lookup of a
  pinned name returns the first entry of that name in the order of the list, and
  \<open>None\<close> when no entry has the name; this holds for applications and for the roles of
  an application. Both lookups are functions of the list and the name alone: they take
  no world, so they read no input. In \<^verbatim>\<open>run\<close>, the stage of a pinned name that is found
  returns that first entry and leaves the world as it was: nothing is printed and no
  line of input is read.
\<close>

theorem pinned_lookup_first_match:
  "(app_name a = n \<longrightarrow> n \<notin> app_name ` set pre \<longrightarrow>
      get_app_by_name (pre @ a # post) n = Some a)
   \<and> (n \<notin> app_name ` set apps \<longrightarrow> get_app_by_name apps n = None)
   \<and> (role_name r = m \<longrightarrow> m \<notin> role_name ` set rpre \<longrightarrow> roles app = rpre @ r # rpost \<longrightarrow>
      get_role_by_name app m = Some r)
   \<and> (m \<notin> role_name ` set (roles app) \<longrightarrow> get_role_by_name app m = None)
   \<and> (conf_dict env ''aws_appname'' = Some n \<longrightarrow> n \<noteq> [] \<longrightarrow> app_name a = n \<longrightarrow>
      n \<notin> app_name ` set pre \<longrightarrow> run_select_app env (pre @ a # post) w = (Inr a, w))
   \<and> (conf_dict env ''aws_rolename'' = Some m \<longrightarrow> m \<noteq> [] \<longrightarrow> role_name r = m \<longrightarrow>
      m \<notin> role_name ` set rpre \<longrightarrow> roles app = rpre @ r # rpost \<longrightarrow>
      run_select_role env app w = (Inr r, w))"
  by (simp add: get_app_by_name_first get_app_by_name_none find_role_first find_role_none
      get_role_by_name_def run_select_app_def run_select_role_def and_then_def falsy_def
      item_def)

theorem pinned_lookup_first_match_witness:
  "get_app_by_name [prod\<lparr>app_name := ''Dev''\<rparr>, prod, prod\<lparr>app_id := ''0oa2''\<rparr>] ''Prod''
     = Some prod
   \<and> get_app_by_name [prod, prod\<lparr>app_id := ''0oa2''\<rparr>] ''Test'' = None
   \<and> get_role_by_name
        (prod\<lparr>roles := [\<lparr>role_name = ''Dev'', role_arn = ''a''\<rparr>,
                         \<lparr>role_name = ''Admin'', role_arn = ''b''\<rparr>,
                         \<lparr>role_name = ''Admin'', role_arn = ''c''\<rparr>]\<rparr>) ''Admin''
     = Some \<lparr>role_name = ''Admin'', role_arn = ''b''\<rparr>
   \<and> get_role_by_name prod ''Auditor'' = None
   \<and> run_select_app
        (sample_env\<lparr>conf_dict := (conf_dict sample_env)
           (''aws_appname'' \<mapsto> ''Prod'', ''aws_rolename'' \<mapsto> ''Admin'')\<rparr>)
        [prod\<lparr>app_name := ''Dev''\<rparr>, prod, prod\<lparr>app_id := ''0oa2''\<rparr>]
        (fresh\<lparr>stdin := [''1'']\<rparr>)
     = (Inr prod, fresh\<lparr>stdin := [''1'']\<rparr>)
   \<and> run_select_role
        (sample_env\<lparr>conf_dict := (conf_dict sample_env)
           (''aws_appname'' \<mapsto> ''Prod'', ''aws_rolename'' \<mapsto> ''Admin'')\<rparr>)
        (prod\<lparr>roles := [\<lparr>role_name = ''Dev'', role_arn = ''a''\<rparr>,
                         \<lparr>role_name = ''Admin'', role_arn = ''b''\<rparr>,
                         \<lparr>role_name = ''Admin'', role_arn = ''c''\<rparr>]\<rparr>)
        (fresh\<lparr>stdin := [''1'']\<rparr>)
     = (Inr \<lparr>role_name = ''Admin'', role_arn = ''b''\<rparr>, fresh\<lparr>stdin := [''1'']\<rparr>)"
  using pinned_lookup_first_match
    [where a = prod and n = "''Prod''" and pre = "[prod\<lparr>app_name := ''Dev''\<rparr>]"
       and post = "[prod\<lparr>app_id := ''0oa2''\<rparr>]"
       and r = "\<lparr>role_name = ''Admin'', role_arn = ''b''\<rparr>" and m = "''Admin''"
       and rpre = "[\<lparr>role_name = ''Dev'', role_arn = ''a''\<rparr>]"
       and rpost = "[\<lparr>role_name = ''Admin'', role_arn = ''c''\<rparr>]"
       and app = "prod\<lparr>roles := [\<lparr>role_name = ''Dev'', role_arn = ''a''\<rparr>,
                         \<lparr>role_name = ''Admin'', role_arn = ''b''\<rparr>,
                         \<lparr>role_name = ''Admin'', role_arn = ''c''\<rparr>]\<rparr>"
       and env = "sample_env\<lparr>conf_dict := (conf_dict sample_env)
           (''aws_appname'' \<mapsto> ''Prod'', ''aws_rolename'' \<mapsto> ''Admin'')\<rparr>"
       and w = "fresh\<lparr>stdin := [''1'']\<rparr>"]
    pinned_lookup_first_match
    [where n = "''Test''" and apps = "[prod, prod\<lparr>app_id := ''0oa2''\<rparr>]"
       and m = "''Auditor''" and app = prod]
  by (simp add: prod_def sample_env_def)

subsection \<open>Pinned names that match nothing\<close>






subsection \<open>Delivery\<close>



subsection \<open>The catalog\<close>

lemma build_roles_names:
  "build_roles tc idp rs = Inr infos \<Longrightarrow> map role_name infos = rs"
  by (induction rs arbitrary: infos) (auto split: sum.splits)

lemma new_app_entry_roles:
  "new_app_entry tc app = Inr e \<Longrightarrow> map role_name (roles e) = samlRoles app"
  by (auto simp: new_app_entry_def build_roles_names split: sum.splits list.splits)

lemma build_app_list_roles:
  "build_app_list tc apps = Inr entries \<Longrightarrow>
     map (\<lambda>e. map role_name (roles e)) entries =
     map samlRoles (filter (\<lambda>a. okta_name a = ''amazon_aws'') apps)"
  by (induction apps arbitrary: entries)
     (auto simp: new_app_entry_roles split: sum.splits if_splits)

lemma get_aws_account_info_Inr:
  assumes "get_aws_account_info tc api username w = (Inr app_list, w')"
  shows "\<exists>final_result. all_pages api w = (Inr final_result, w')
            \<and> build_app_list tc final_result = Inr app_list \<and> app_list \<noteq> []"
  using assms
  by (auto simp: get_aws_account_info_def exit_def split: sum.splits prod.splits if_splits)

lemma select_role_no_roles:
  assumes "roles app = []"
  shows "run_select_role env app w =
           (Inl (SystemExit 1), print ''No roles available to this user.'' w)"
  using assms
  by (auto simp add: run_select_role_def and_then_def falsy_def item_def get_role_by_name_def
      choose_role_def exit_def split: option.splits)

text \<open>
  Claim C3, as the code has it. The catalog builder filters on the connector type only.
  Whenever it returns a catalog, the entries are, in order, those of the records named
  \<^verbatim>\<open>amazon_aws\<close> among all pages, and the role names of each entry are the \<^verbatim>\<open>samlRoles\<close>
  of its record, in order: an entry has no roles exactly when its record lists none.
  Such an entry is turned down later: role resolution on an application without roles
  ends the run with exit status 1 and the line \<^verbatim>\<open>No roles available to this user.\<close>,
  with or without a pinned role name.
\<close>

theorem catalog_roles_follow_samlRoles:
  "(get_aws_account_info tc api username w = (Inr app_list, w') \<longrightarrow>
      (\<exists>final_result. fst (all_pages api w) = Inr final_result
         \<and> map (\<lambda>e. map role_name (roles e)) app_list =
             map samlRoles (filter (\<lambda>a. okta_name a = ''amazon_aws'') final_result)))
   \<and> (roles app = [] \<longrightarrow>
      run_select_role env app w1 =
        (Inl (SystemExit 1), print ''No roles available to this user.'' w1))"
proof (intro conjI impI)
  assume "get_aws_account_info tc api username w = (Inr app_list, w')"
  then obtain final_result where "all_pages api w = (Inr final_result, w')"
    and "build_app_list tc final_result = Inr app_list"
    using get_aws_account_info_Inr by blast
  then show "\<exists>final_result. fst (all_pages api w) = Inr final_result
         \<and> map (\<lambda>e. map role_name (roles e)) app_list =
             map samlRoles (filter (\<lambda>a. okta_name a = ''amazon_aws'') final_result)"
    using build_app_list_roles by fastforce
next
  assume "roles app = []"
  then show "run_select_role env app w1 =
        (Inl (SystemExit 1), print ''No roles available to this user.'' w1)"
    by (rule select_role_no_roles)
qed

theorem catalog_roles_follow_samlRoles_witness:
  "get_aws_account_info reject_templates
     \<lparr>user_result = Inr ''00u1'',
      first_page = Inr [okta_prod, okta_prod\<lparr>okta_name := ''salesforce''\<rparr>],
      next_pages = [Inr [okta_prod\<lparr>okta_label := ''Idle'', samlRoles := []\<rparr>]]\<rparr>
     ''alice'' fresh
     = (Inr [prod, prod\<lparr>app_name := ''Idle'', roles := []\<rparr>],
        fresh\<lparr>stdout := ''.done\<newline>\<newline>''\<rparr>)
   \<and> (\<exists>final_result.
         fst (all_pages
           \<lparr>user_result = Inr ''00u1'',
            first_page = Inr [okta_prod, okta_prod\<lparr>okta_name := ''salesforce''\<rparr>],
            next_pages = [Inr [okta_prod\<lparr>okta_label := ''Idle'', samlRoles := []\<rparr>]]\<rparr>
           fresh) = Inr final_result
         \<and> [[''Admin''], []] =
             map samlRoles (filter (\<lambda>a. okta_name a = ''amazon_aws'') final_result))
   \<and> run_select_role sample_env (prod\<lparr>app_name := ''Idle'', roles := []\<rparr>) fresh
     = (Inl (SystemExit 1), fresh\<lparr>stdout := ''No roles available to this user.\<newline>''\<rparr>)"
proof -
  let ?api = "\<lparr>user_result = Inr ''00u1'',
      first_page = Inr [okta_prod, okta_prod\<lparr>okta_name := ''salesforce''\<rparr>],
      next_pages = [Inr [okta_prod\<lparr>okta_label := ''Idle'', samlRoles := []\<rparr>]]\<rparr>"
  have run: "get_aws_account_info reject_templates ?api ''alice'' fresh
     = (Inr [prod, prod\<lparr>app_name := ''Idle'', roles := []\<rparr>],
        fresh\<lparr>stdout := ''.done\<newline>\<newline>''\<rparr>)"
    by (simp add: catalog_defs io_defs sample_defs)
  have none: "roles (prod\<lparr>app_name := ''Idle'', roles := []\<rparr>) = []"
    by simp
  from catalog_roles_follow_samlRoles
    [where tc = reject_templates and api = ?api and username = "''alice''" and w = fresh
       and app_list = "[prod, prod\<lparr>app_name := ''Idle'', roles := []\<rparr>]"
       and w' = "fresh\<lparr>stdout := ''.done\<newline>\<newline>''\<rparr>"
       and app = "prod\<lparr>app_name := ''Idle'', roles := []\<rparr>" and env = sample_env
       and ?w1.0 = fresh]
    run none
  show ?thesis
    by (simp add: prod_def fresh_def print_def print_end_def)
qed

text \<open>
  The claim as stated has every entry of the catalog hold a role. Here the only
  application record lists no role, and the catalog that reaches the resolver holds its
  entry, with an empty list of roles.
\<close>

theorem catalog_entry_without_roles_counterexample:
  "get_aws_account_info reject_templates
     \<lparr>user_result = Inr ''00u1'', first_page = Inr [okta_prod\<lparr>samlRoles := []\<rparr>],
      next_pages = []\<rparr> ''alice'' fresh
   = (Inr [prod\<lparr>roles := []\<rparr>], fresh\<lparr>stdout := ''done\<newline>\<newline>''\<rparr>)"
  by (simp add: catalog_defs io_defs sample_defs)

text \<open>
  Claim C1, against the code. In both modes the branch for an empty catalog prints
  \<^verbatim>\<open>No AWS accounts found.\<close> and calls \<^verbatim>\<open>exit()\<close> without a status, so the process ends
  with exit status 0, where every other failure of the program calls \<^verbatim>\<open>exit(1)\<close>. The
  first run is in the internal mode with one application record of another connector
  type; the second is in the server mode with an empty answer of the server.
\<close>

theorem empty_catalog_exits_with_status_0:
  "run (sample_env\<lparr>okta := (okta sample_env)
          \<lparr>first_page := Inr [okta_prod\<lparr>okta_name := ''salesforce''\<rparr>]\<rparr>\<rparr>) fresh
     = (Inl (SystemExit 0),
        fresh\<lparr>stdout :=
          ''Authentication Success! Getting AWS Accountsdone\<newline>\<newline>No AWS accounts found.\<newline>''\<rparr>)
   \<and> run (sample_env\<lparr>conf_dict := (conf_dict sample_env)
             (''gimme_creds_server'' \<mapsto> ''https://creds.example.com'',
              ''client_id'' \<mapsto> ''0oa9'', ''okta_auth_server'' \<mapsto> ''aus1''),
           server_response := Inr []\<rparr>) fresh
     = (Inl (SystemExit 0),
        fresh\<lparr>stdout :=
          ''Authentication Success! Calling Gimme-Creds Server...\<newline>No AWS accounts found.\<newline>''\<rparr>)"
  by (simp add: run_defs io_defs catalog_defs sample_defs)

subsection \<open>The profile of the store\<close>

text \<open>
  Claim C9, against the code. With \<^verbatim>\<open>cred_profile\<close> set to \<^verbatim>\<open>role\<close> the profile is read
  from the configured \<^verbatim>\<open>aws_rolename\<close>, not from the role that was resolved. In the first
  run no role name is configured, the operator picks application 0 and role 0 (the role
  \<^verbatim>\<open>Admin\<close>), the credentials are obtained, and the delivery raises \<^verbatim>\<open>KeyError\<close>: nothing
  is stored. In the second run the configuration holds an empty \<^verbatim>\<open>aws_rolename\<close>: the
  credentials land in the section \<^verbatim>\<open>DEFAULT\<close> beside an empty section without a name,
  and no section is named \<^verbatim>\<open>Admin\<close>.
\<close>

theorem role_profile_ignores_interactive_choice:
  "run (sample_env\<lparr>conf_dict := (conf_dict sample_env)(''write_aws_creds'' \<mapsto> ''True'')\<rparr>)
       (fresh\<lparr>stdin := [''0'', ''0'']\<rparr>)
     = (Inl (KeyError ''aws_rolename''),
        fresh\<lparr>stdout :=
            ''Authentication Success! Getting AWS Accountsdone\<newline>\<newline>Pick an app:\<newline>[0] Prod\<newline>Selection: Pick a role:\<newline>[0] Admin\<newline>Selection: writing to  /home/alice/.aws/credentials\<newline>'',
          self_idp_arn := Some ''arn:aws:iam::111:saml-provider/Okta'',
          self_role_arn := Some ''arn:aws:iam::111:role/Admin'',
          sts_requests :=
            [\<lparr>RoleArn = ''arn:aws:iam::111:role/Admin'',
              PrincipalArn = ''arn:aws:iam::111:saml-provider/Okta'',
              SAMLAssertion = ''PHNhbWw+'', DurationSeconds = 3600\<rparr>]\<rparr>)
   \<and> creds_store (snd (run
        (sample_env\<lparr>conf_dict := (conf_dict sample_env)
           (''write_aws_creds'' \<mapsto> ''True'', ''aws_rolename'' \<mapsto> [])\<rparr>)
        (fresh\<lparr>stdin := [''0'', ''0'']\<rparr>)))
     = Dir (Some [(''DEFAULT'', [(''aws_access_key_id'', ''AKID''),
                                 (''aws_secret_access_key'', ''SECRET''),
                                 (''aws_session_token'', ''TOKEN'')]),
                  ([], [])])"
  by (simp add: run_defs io_defs catalog_defs choice_defs python_defs store_defs sample_defs)

subsection \<open>The interactive choice\<close>

lemma print_all_world:
  "print_all ls w = w\<lparr>stdout := stdout w @ concat (map (\<lambda>l. l @ ''\<newline>'') ls)\<rparr>"
  by (induction ls arbitrary: w) (simp_all add: print_def print_end_def)

lemma read_selection_accepts:
  "\<forall>l\<in>set bad. py_int l = None \<Longrightarrow> length bad < k \<Longrightarrow> py_int good = Some n \<Longrightarrow>
   stdin w = bad @ good # rest \<Longrightarrow>
   read_selection k w =
     (Inr (Some n),
      w\<lparr>stdin := rest,
        stdout := stdout w
          @ concat (replicate (length bad)
              ''Selection: Invalid selection, must be an integer value.\<newline>'')
          @ ''Selection: ''\<rparr>)"
proof (induction bad arbitrary: k w)
  case Nil
  then obtain j where "k = Suc j" by (cases k) auto
  with Nil show ?case by (simp add: input_def print_end_def)
next
  case (Cons b bad)
  then obtain j where k: "k = Suc j" by (cases k) auto
  let ?w = "print ''Invalid selection, must be an integer value.''
              ((print_end ''Selection: '' [] w)\<lparr>stdin := bad @ good # rest\<rparr>)"
  have "read_selection j ?w =
     (Inr (Some n),
      ?w\<lparr>stdin := rest,
        stdout := stdout ?w
          @ concat (replicate (length bad)
              ''Selection: Invalid selection, must be an integer value.\<newline>'')
          @ ''Selection: ''\<rparr>)"
    using Cons.prems k by (intro Cons.IH) (simp_all add: print_def print_end_def)
  then show ?case
    using Cons.prems k by (simp add: input_def print_def print_end_def)
qed

lemma read_selection_gives_up:
  "\<forall>l\<in>set bad. py_int l = None \<Longrightarrow> length bad = k \<Longrightarrow> stdin w = bad @ rest \<Longrightarrow>
   read_selection k w =
     (Inr None,
      w\<lparr>stdin := rest,
        stdout := stdout w
          @ concat (replicate k
              ''Selection: Invalid selection, must be an integer value.\<newline>'')\<rparr>)"
proof (induction bad arbitrary: k w)
  case Nil
  then show ?case by simp
next
  case (Cons b bad)
  then obtain j where k: "k = Suc j" by (cases k) auto
  let ?w = "print ''Invalid selection, must be an integer value.''
              ((print_end ''Selection: '' [] w)\<lparr>stdin := bad @ rest\<rparr>)"
  have "read_selection j ?w =
     (Inr None,
      ?w\<lparr>stdin := rest,
        stdout := stdout ?w
          @ concat (replicate j
              ''Selection: Invalid selection, must be an integer value.\<newline>'')\<rparr>)"
    using Cons.prems k by (intro Cons.IH) (simp_all add: print_def print_end_def)
  then show ?case
    using Cons.prems k by (simp add: input_def print_def print_end_def)
qed

lemma numbered_empty: "numbered i ns = [] \<longleftrightarrow> ns = []"
  by (cases ns) simp_all

text \<open>
  Claim C2, as the code has it. The loop asks again only after a line that is not an
  integer, at most five lines in all. The first line that is an integer ends the loop,
  in range or not: an integer within the list selects that entry, an integer outside
  it is an invalid selection and ends the run with exit status 1, and the lines behind
  it stay unread. Five lines that are not integers end the run in the same way. The
  prompt is printed once for every line read. (\<^verbatim>\<open>_choose_role\<close> runs the same loop over
  the roles of the application.)
\<close>

theorem interactive_selection:
  assumes "aws_info \<noteq> []" and "\<forall>l\<in>set bad. py_int l = None"
  shows
   "(length bad < 5 \<and> py_int good = Some n \<and> stdin w = bad @ good # rest \<longrightarrow>
       choose_app aws_info w =
         (if 0 \<le> n \<and> n < int (length aws_info)
          then (Inr (Some (aws_info ! nat n)),
                w\<lparr>stdin := rest,
                  stdout := stdout w @ ''Pick an app:\<newline>''
                    @ concat (map (\<lambda>l. l @ ''\<newline>'') (numbered 0 (map app_name aws_info)))
                    @ concat (replicate (length bad)
                        ''Selection: Invalid selection, must be an integer value.\<newline>'')
                    @ ''Selection: ''\<rparr>)
          else (Inl (SystemExit 1),
                w\<lparr>stdin := rest,
                  stdout := stdout w @ ''Pick an app:\<newline>''
                    @ concat (map (\<lambda>l. l @ ''\<newline>'') (numbered 0 (map app_name aws_info)))
                    @ concat (replicate (length bad)
                        ''Selection: Invalid selection, must be an integer value.\<newline>'')
                    @ ''Selection: '' @ ''You made an invalid selection\<newline>''\<rparr>)))
    \<and> (length bad = 5 \<and> stdin w = bad @ rest \<longrightarrow>
         choose_app aws_info w =
           (Inl (SystemExit 1),
            w\<lparr>stdin := rest,
              stdout := stdout w @ ''Pick an app:\<newline>''
                @ concat (map (\<lambda>l. l @ ''\<newline>'') (numbered 0 (map app_name aws_info)))
                @ concat (replicate (length bad)
                    ''Selection: Invalid selection, must be an integer value.\<newline>'')
                @ ''You made an invalid selection\<newline>''\<rparr>))"
proof (intro conjI impI)
  let ?w1 = "print_all (numbered 0 (map app_name aws_info)) (print ''Pick an app:'' w)"
  have menu: "?w1 = w\<lparr>stdout := stdout w @ ''Pick an app:\<newline>''
       @ concat (map (\<lambda>l. l @ ''\<newline>'') (numbered 0 (map app_name aws_info)))\<rparr>"
    by (simp add: print_all_world print_def print_end_def)
  have ne: "numbered 0 (map app_name aws_info) \<noteq> []"
    using assms(1) by (simp add: numbered_empty)
  {
    assume a: "length bad < 5 \<and> py_int good = Some n \<and> stdin w = bad @ good # rest"
    then have "stdin ?w1 = bad @ good # rest" by (simp add: menu)
    with a assms(2) have "read_selection 5 ?w1 =
       (Inr (Some n),
        ?w1\<lparr>stdin := rest,
          stdout := stdout ?w1
            @ concat (replicate (length bad)
                ''Selection: Invalid selection, must be an integer value.\<newline>'')
            @ ''Selection: ''\<rparr>)"
      by (intro read_selection_accepts) simp_all
    then show "choose_app aws_info w =
         (if 0 \<le> n \<and> n < int (length aws_info)
          then (Inr (Some (aws_info ! nat n)),
                w\<lparr>stdin := rest,
                  stdout := stdout w @ ''Pick an app:\<newline>''
                    @ concat (map (\<lambda>l. l @ ''\<newline>'') (numbered 0 (map app_name aws_info)))
                    @ concat (replicate (length bad)
                        ''Selection: Invalid selection, must be an integer value.\<newline>'')
                    @ ''Selection: ''\<rparr>)
          else (Inl (SystemExit 1),
                w\<lparr>stdin := rest,
                  stdout := stdout w @ ''Pick an app:\<newline>''
                    @ concat (map (\<lambda>l. l @ ''\<newline>'') (numbered 0 (map app_name aws_info)))
                    @ concat (replicate (length bad)
                        ''Selection: Invalid selection, must be an integer value.\<newline>'')
                    @ ''Selection: '' @ ''You made an invalid selection\<newline>''\<rparr>))"
      using assms(1) ne
      by (simp add: choose_app_def get_user_int_selection_def print_all_world py_index_def
          exit_def print_def print_end_def Let_def not_less)
  }
  {
    assume a: "length bad = 5 \<and> stdin w = bad @ rest"
    then have "stdin ?w1 = bad @ rest" by (simp add: menu)
    with a assms(2) have "read_selection 5 ?w1 =
       (Inr None,
        ?w1\<lparr>stdin := rest,
          stdout := stdout ?w1
            @ concat (replicate 5
                ''Selection: Invalid selection, must be an integer value.\<newline>'')\<rparr>)"
      by (intro read_selection_gives_up) simp_all
    then show "choose_app aws_info w =
           (Inl (SystemExit 1),
            w\<lparr>stdin := rest,
              stdout := stdout w @ ''Pick an app:\<newline>''
                @ concat (map (\<lambda>l. l @ ''\<newline>'') (numbered 0 (map app_name aws_info)))
                @ concat (replicate (length bad)
                    ''Selection: Invalid selection, must be an integer value.\<newline>'')
                @ ''You made an invalid selection\<newline>''\<rparr>)"
      using assms(1) ne a
      by (simp add: choose_app_def get_user_int_selection_def print_all_world exit_def
          print_def print_end_def Let_def)
  }
qed

theorem interactive_selection_witness:
  "choose_app [prod, prod\<lparr>app_name := ''Dev''\<rparr>] (fresh\<lparr>stdin := [''x'', ''1'', ''0'']\<rparr>)
     = (Inr (Some (prod\<lparr>app_name := ''Dev''\<rparr>)),
        fresh\<lparr>stdin := [''0''],
          stdout := ''Pick an app:\<newline>[0] Prod\<newline>[1] Dev\<newline>Selection: Invalid selection, must be an integer value.\<newline>Selection: ''\<rparr>)
   \<and> choose_app [prod, prod\<lparr>app_name := ''Dev''\<rparr>]
       (fresh\<lparr>stdin := [''a'', ''b'', ''c'', '''', ''1.0'', ''0'']\<rparr>)
     = (Inl (SystemExit 1),
        fresh\<lparr>stdin := [''0''],
          stdout := ''Pick an app:\<newline>[0] Prod\<newline>[1] Dev\<newline>Selection: Invalid selection, must be an integer value.\<newline>Selection: Invalid selection, must be an integer value.\<newline>Selection: Invalid selection, must be an integer value.\<newline>Selection: Invalid selection, must be an integer value.\<newline>Selection: Invalid selection, must be an integer value.\<newline>You made an invalid selection\<newline>''\<rparr>)"
  using interactive_selection
    [where aws_info = "[prod, prod\<lparr>app_name := ''Dev''\<rparr>]" and bad = "[''x'']"
       and good = "''1''" and n = 1 and rest = "[''0'']"
       and w = "fresh\<lparr>stdin := [''x'', ''1'', ''0'']\<rparr>"]
    interactive_selection
    [where aws_info = "[prod, prod\<lparr>app_name := ''Dev''\<rparr>]"
       and bad = "[''a'', ''b'', ''c'', '''', ''1.0'']" and rest = "[''0'']"
       and w = "fresh\<lparr>stdin := [''a'', ''b'', ''c'', '''', ''1.0'', ''0'']\<rparr>"]
  by (simp add: python_defs sample_defs)

text \<open>
  The claim as stated has the lines \<^verbatim>\<open>x\<close>, \<^verbatim>\<open>9\<close>, \<^verbatim>\<open>0\<close> against two entries lead to a
  second prompt after \<^verbatim>\<open>9\<close> and to the selection 0. The code prompts twice in all, takes
  \<^verbatim>\<open>9\<close> as the selection, finds it out of range and exits with status 1; the line \<^verbatim>\<open>0\<close>
  is never read.
\<close>

theorem out_of_range_selection_counterexample:
  "choose_app [prod, prod\<lparr>app_name := ''Dev''\<rparr>] (fresh\<lparr>stdin := [''x'', ''9'', ''0'']\<rparr>)
   = (Inl (SystemExit 1),
      fresh\<lparr>stdin := [''0''],
        stdout := ''Pick an app:\<newline>[0] Prod\<newline>[1] Dev\<newline>Selection: Invalid selection, must be an integer value.\<newline>Selection: You made an invalid selection\<newline>''\<rparr>)"
  by (simp add: choice_defs io_defs python_defs sample_defs)

subsection \<open>The role ARN\<close>

lemma marker_prefix_sublist: "take (length marker) s = marker \<Longrightarrow> sublist marker s"
  by (metis append_take_drop_id sublist_append_rightI)

lemma sub_matches_unmarked: "\<not> sublist marker s \<Longrightarrow> sub_matches f s = s"
proof (induction s)
  case Nil
  then show ?case by simp
next
  case (Cons c cs)
  from Cons.prems have "take (length marker) (c # cs) \<noteq> marker"
    using marker_prefix_sublist by blast
  moreover from Cons.prems have "\<not> sublist marker cs"
    by (meson sublist_Cons_right)
  ultimately show ?case using Cons.IH by simp
qed




lemma compile_repl_plain:
  "CHR 0x5C \<notin> set repl \<Longrightarrow> compile_repl tc repl = Inr (\<lambda>m. repl)"
  by (simp add: compile_repl_def)




lemma build_roles_unmarked:
  "\<not> sublist marker idp \<Longrightarrow> \<forall>r\<in>set rs. CHR 0x5C \<notin> set r \<Longrightarrow>
     build_roles tc idp rs = Inr (map (\<lambda>r. \<lparr>role_name = r, role_arn = idp\<rparr>) rs)"
  by (induction rs) (simp_all add: re_sub_def compile_repl_plain sub_matches_unmarked)

text \<open>
  Claim C4, as the code has it. For a provider reference without the marker the
  substitution finds nothing to replace: every role of the application (named without a
  backslash) gets the provider reference itself as its ARN, and no error. The exchange
  validates nothing: once the assertion is there, it sends the ARN of the chosen role as
  \<^verbatim>\<open>RoleArn\<close> and the provider reference as \<^verbatim>\<open>PrincipalArn\<close> to the federation service,
  and its result is whatever the service answers.
\<close>

theorem unmarked_provider_is_submitted:
  "(\<not> sublist marker idp \<and> (\<forall>r\<in>set rs. CHR 0x5C \<notin> set r) \<longrightarrow>
      build_roles tc idp rs = Inr (map (\<lambda>r. \<lparr>role_name = r, role_arn = idp\<rparr>) rs))
   \<and> (saml_response env (appLink app) = Inr assertion \<longrightarrow>
      run_exchange env app rl w =
        (assume_role_with_saml env
           \<lparr>RoleArn = role_arn rl, PrincipalArn = identityProviderArn app,
            SAMLAssertion = assertion, DurationSeconds = 3600\<rparr>,
         w\<lparr>self_idp_arn := Some (identityProviderArn app),
           self_role_arn := Some (role_arn rl),
           sts_requests := sts_requests w @
             [\<lparr>RoleArn = role_arn rl, PrincipalArn = identityProviderArn app,
               SAMLAssertion = assertion, DurationSeconds = 3600\<rparr>]\<rparr>))"
  by (simp add: build_roles_unmarked run_exchange_def get_sts_creds_def Let_def)

theorem unmarked_provider_is_submitted_witness:
  "build_roles reject_templates ''arn:aws:iam::111:oidc-provider/Okta'' [''Admin'', ''Dev'']
     = Inr [\<lparr>role_name = ''Admin'', role_arn = ''arn:aws:iam::111:oidc-provider/Okta''\<rparr>,
            \<lparr>role_name = ''Dev'', role_arn = ''arn:aws:iam::111:oidc-provider/Okta''\<rparr>]
   \<and> run_exchange sample_env
        (prod\<lparr>identityProviderArn := ''arn:aws:iam::111:oidc-provider/Okta''\<rparr>)
        \<lparr>role_name = ''Admin'', role_arn = ''arn:aws:iam::111:oidc-provider/Okta''\<rparr> fresh
     = (Inr sample_creds,
        fresh\<lparr>self_idp_arn := Some ''arn:aws:iam::111:oidc-provider/Okta'',
          self_role_arn := Some ''arn:aws:iam::111:oidc-provider/Okta'',
          sts_requests :=
            [\<lparr>RoleArn = ''arn:aws:iam::111:oidc-provider/Okta'',
              PrincipalArn = ''arn:aws:iam::111:oidc-provider/Okta'',
              SAMLAssertion = ''PHNhbWw+'', DurationSeconds = 3600\<rparr>]\<rparr>)"
proof -
  have unmarked: "\<not> sublist marker ''arn:aws:iam::111:oidc-provider/Okta''"
    by (simp add: marker_def sublist_code)
  from unmarked_provider_is_submitted
    [where idp = "''arn:aws:iam::111:oidc-provider/Okta''" and rs = "[''Admin'', ''Dev'']"
       and tc = reject_templates and env = sample_env
       and app = "prod\<lparr>identityProviderArn := ''arn:aws:iam::111:oidc-provider/Okta''\<rparr>"
       and assertion = "''PHNhbWw+''"
       and rl = "\<lparr>role_name = ''Admin'', role_arn = ''arn:aws:iam::111:oidc-provider/Okta''\<rparr>"
       and w = fresh]
    unmarked
  show ?thesis
    by (simp add: sample_defs)
qed

text \<open>
  The claim as stated has the exchange fail for a provider reference without the
  marker. In this run the only application has such a reference; the operator picks it
  and its role; the unchanged reference is sent as the role ARN, the service of the
  sample environment answers with credentials, and the run delivers them.
\<close>

theorem unmarked_provider_counterexample:
  "run (sample_env\<lparr>okta := (okta sample_env)
          \<lparr>first_page := Inr [okta_prod
             \<lparr>okta_identityProviderArn := ''arn:aws:iam::111:oidc-provider/Okta''\<rparr>]\<rparr>\<rparr>)
       (fresh\<lparr>stdin := [''0'', ''0'']\<rparr>)
   = (Inr (),
      fresh\<lparr>stdout :=
          ''Authentication Success! Getting AWS Accountsdone\<newline>\<newline>Pick an app:\<newline>[0] Prod\<newline>Selection: Pick a role:\<newline>[0] Admin\<newline>Selection: '',
        stderr :=
          ''export AWS_ACCESS_KEY_ID=AKID\<newline>export AWS_SECRET_ACCESS_KEY=SECRET\<newline>export AWS_SESSION_TOKEN=TOKEN\<newline>'',
        self_idp_arn := Some ''arn:aws:iam::111:oidc-provider/Okta'',
        self_role_arn := Some ''arn:aws:iam::111:oidc-provider/Okta'',
        sts_requests :=
          [\<lparr>RoleArn = ''arn:aws:iam::111:oidc-provider/Okta'',
            PrincipalArn = ''arn:aws:iam::111:oidc-provider/Okta'',
            SAMLAssertion = ''PHNhbWw+'', DurationSeconds = 3600\<rparr>]\<rparr>)"
  by (simp add: run_defs io_defs catalog_defs choice_defs python_defs sample_defs)

subsection \<open>The credential store\<close>





















end
